theory Spec2Isabelle
  imports Main
begin

section \<open>The interview page: data model\<close>

text \<open>
  The development embeds the non-presentational logic of the interview page
  (\<^verbatim>\<open>frontend/app/interview/[jobId]/[resumeId]/page.tsx\<close>). The React state cells
  and refs of the component are the fields of one record; every handler is a function from
  the state its closure sees to the state after its setters have been applied, together
  with the frames it put on the protocol socket. Handlers that React re-creates at every
  render read the current state, a render being taken to lie between any two events; the
  closures that outlive their render (the end-of-stream handler of the screen share, the
  voice test and the message handler of the socket) carry what they captured.
\<close>

subsection \<open>JavaScript values and strings\<close>

text \<open>
  Values as \<^verbatim>\<open>JSON.parse\<close> produces them, with \<^verbatim>\<open>undefined\<close> for an absent property.
  Numbers are the integers; an object is the list of its keys, each once, with their values.
\<close>

datatype jsval =
    JUndef
  | JNull
  | JBool bool
  | JNum int
  | JStr string
  | JArr "jsval list"
  | JObj "(string \<times> jsval) list"

datatype exn = TypeError | InvalidStateError | SyntaxError

text \<open>Truthiness: \<^verbatim>\<open>undefined\<close>, \<^verbatim>\<open>null\<close>, \<^verbatim>\<open>false\<close>, \<^verbatim>\<open>0\<close> and \<^verbatim>\<open>""\<close> are falsy.\<close>

fun truthy :: "jsval \<Rightarrow> bool" where
  "truthy JUndef = False"
| "truthy JNull = False"
| "truthy (JBool b) = b"
| "truthy (JNum n) = (n \<noteq> 0)"
| "truthy (JStr s) = (s \<noteq> [])"
| "truthy (JArr xs) = True"
| "truthy (JObj fs) = True"

text \<open>
  White space as \<^verbatim>\<open>String.prototype.trim\<close> removes it, over the code units a
  \<^typ>\<open>char\<close> can hold: tab, line feed, vertical tab, form feed, carriage return, space
  and the no-break space.
\<close>

definition is_space :: "char \<Rightarrow> bool" where
  "is_space c = ((of_char c :: nat) \<in> {9, 10, 11, 12, 13, 32, 160})"

definition trim :: "string \<Rightarrow> string" where
  "trim s = rev (dropWhile is_space (rev (dropWhile is_space s)))"

text \<open>\<^verbatim>\<open>s.includes(sub)\<close>: \<^verbatim>\<open>sub\<close> occurs in \<^verbatim>\<open>s\<close> as a contiguous run.\<close>

fun js_includes :: "string \<Rightarrow> string \<Rightarrow> bool" where
  "js_includes [] sub = (sub = [])"
| "js_includes (c # cs) sub = (take (length sub) (c # cs) = sub \<or> js_includes cs sub)"

subsection \<open>The protocol socket\<close>

datatype readyState = CONNECTING | OPEN | CLOSING | CLOSED

text \<open>
  The frames the page writes. Each constructor is one object shape passed to
  \<^verbatim>\<open>JSON.stringify\<close>: \<^verbatim>\<open>{type: "screen-share", action}\<close>, \<^verbatim>\<open>{answer}\<close>,
  \<^verbatim>\<open>{answer, reason, violation_count}\<close>, \<^verbatim>\<open>{type: "tab-switch", count}\<close> and
  \<^verbatim>\<open>{type: "fullscreen-violation", count, timestamp}\<close>.
\<close>

datatype wire =
    ScreenShareMsg string
  | AnswerMsg string
  | AnswerReasonMsg string string int
  | TabSwitchMsg int
  | FullscreenViolationMsg int string

text \<open>
  The end-of-session message is an answer whose text is \<^verbatim>\<open>"end interview"\<close>, with or
  without a reason.
\<close>

fun is_end_session :: "wire \<Rightarrow> bool" where
  "is_end_session (AnswerMsg a) = (a = ''end interview'')"
| "is_end_session (AnswerReasonMsg a r n) = (a = ''end interview'')"
| "is_end_session m = False"

text \<open>
  \<^verbatim>\<open>socket.send(m)\<close>: a socket that is still connecting throws, an open one transmits,
  a closing or closed one drops the frame silently.
\<close>

fun sock_send :: "readyState \<Rightarrow> wire \<Rightarrow> exn + wire list" where
  "sock_send CONNECTING m = Inl InvalidStateError"
| "sock_send OPEN m = Inr [m]"
| "sock_send CLOSING m = Inr []"
| "sock_send CLOSED m = Inr []"

text \<open>\<^verbatim>\<open>ws?.send(m)\<close>: nothing happens when the state cell holds no socket.\<close>

fun opt_send :: "readyState option \<Rightarrow> wire \<Rightarrow> exn + wire list" where
  "opt_send None m = Inr []"
| "opt_send (Some rs) m = sock_send rs m"

text \<open>\<^verbatim>\<open>if (ws && ws.readyState === WebSocket.OPEN) ws.send(m)\<close>.\<close>

definition guarded_send :: "readyState option \<Rightarrow> wire \<Rightarrow> wire list" where
  "guarded_send w m = (if w = Some OPEN then [m] else [])"

subsection \<open>Component state\<close>

datatype permission = Granted | Denied | Prompt

datatype setup_step = PermissionsStep | VoiceSelectionStep | ScreenShareStep | ReadyStep

record interview_status =
  question_count :: jsval
  max_questions :: jsval
  is_complete :: bool

text \<open>
  What the end-of-stream handler of the screen share closed over when
  \<^verbatim>\<open>startScreenShare\<close> registered it: the \<^verbatim>\<open>setupComplete\<close> flag and whether the
  \<^verbatim>\<open>ws\<close> cell held a socket, both as of the render that created the function.
\<close>

record ended_closure =
  cap_setupComplete :: bool
  cap_ws :: bool

record page =
  jobId :: string
  resumeId :: string
  ws :: "readyState option"
  isConnected :: bool
  error :: jsval
  status :: interview_status
  setupComplete :: bool
  cameraPermission :: permission
  micPermission :: permission
  screenShareActive :: bool
  setupStep :: setup_step
  videoStream :: bool
  audioStream :: bool
  screenStream :: bool
  screenOnEnded :: "ended_closure option"
  dgConnRef :: bool
  recorderRef :: bool
  isListening :: bool
  isSpeaking :: bool
  currentTranscript :: string
  aiResponse :: jsval
  bufferRef :: string
  selectedVoice :: "string option"
  tabSwitchCount :: int
  proctorWarning :: "string option"
  interviewEndedByProctor :: bool
  fullscreenExitCount :: int
  fullscreenWarning :: "string option"
  isFullscreen :: bool
  showFullscreenPrompt :: bool
  timerSec :: int
  timerActive :: bool

definition TIMER_SEC :: int where
  "TIMER_SEC = 600"

text \<open>The state of the first render: the arguments of the \<^verbatim>\<open>useState\<close> and \<^verbatim>\<open>useRef\<close> calls.\<close>

definition initial_page :: page where
  "initial_page = \<lparr>
     jobId = [], resumeId = [], ws = None, isConnected = False, error = JNull,
     status = \<lparr>question_count = JNum 0, max_questions = JNum 8, is_complete = False\<rparr>,
     setupComplete = False, cameraPermission = Prompt, micPermission = Prompt,
     screenShareActive = False, setupStep = PermissionsStep,
     videoStream = False, audioStream = False, screenStream = False,
     screenOnEnded = None, dgConnRef = False, recorderRef = False,
     isListening = False, isSpeaking = False, currentTranscript = [],
     aiResponse = JStr [], bufferRef = [], selectedVoice = None,
     tabSwitchCount = 0, proctorWarning = None, interviewEndedByProctor = False,
     fullscreenExitCount = 0, fullscreenWarning = None, isFullscreen = False,
     showFullscreenPrompt = False, timerSec = TIMER_SEC, timerActive = False\<rparr>"

text \<open>
  A handler run: the state after it, the frames it transmitted, and the exception that
  left it, if any. Setters called before an exception keep their effect.
\<close>

type_synonym run = "page \<times> wire list \<times> exn option"

section \<open>Pre-session setup\<close>

text \<open>
  A value a promise rejects with: an \<^verbatim>\<open>Error\<close> (or \<^verbatim>\<open>DOMException\<close>) with its name and
  message, or something that is not an \<^verbatim>\<open>Error\<close> instance.
\<close>

datatype thrown = ErrorObj string string | NonError

text \<open>The \<^verbatim>\<open>catch\<close> block of \<^verbatim>\<open>requestPermissions\<close>.\<close>

fun permission_catch :: "thrown \<Rightarrow> page \<Rightarrow> page" where
  "permission_catch (ErrorObj name msg) st =
     (if name = ''NotAllowedError''
      then st\<lparr>cameraPermission := Denied, micPermission := Denied,
              error := JStr ''Camera and microphone access are required for the interview. Please enable permissions and refresh.''\<rparr>
      else st)"
| "permission_catch NonError st = st"

text \<open>
  \<^verbatim>\<open>requestPermissions\<close>: the two \<^verbatim>\<open>getUserMedia\<close> calls, camera first; \<open>None\<close> is a granted
  request, \<open>Some e\<close> one that rejects with \<open>e\<close>.
\<close>

definition requestPermissions :: "thrown option \<Rightarrow> thrown option \<Rightarrow> page \<Rightarrow> page" where
  "requestPermissions cam mic st =
     (case cam of
        Some e \<Rightarrow> permission_catch e st
      | None \<Rightarrow>
          (let st1 = st\<lparr>videoStream := True, cameraPermission := Granted\<rparr>
           in case mic of
                Some e \<Rightarrow> permission_catch e st1
              | None \<Rightarrow> st1\<lparr>audioStream := True, micPermission := Granted,
                            setupStep := ScreenShareStep\<rparr>))"

text \<open>
  The two buttons that move the checklist on: \<^verbatim>\<open>Continue to Voice Selection\<close>, rendered on
  the permissions pane once both permissions are granted, and
  \<^verbatim>\<open>Continue to Screen Sharing\<close>, rendered on the voice pane and disabled without a
  selected voice.
\<close>

definition continueToVoiceSelection :: "page \<Rightarrow> page" where
  "continueToVoiceSelection st =
     (if setupStep st = PermissionsStep \<and> cameraPermission st = Granted \<and> micPermission st = Granted
      then st\<lparr>setupStep := VoiceSelectionStep\<rparr> else st)"

definition continueToScreenSharing :: "page \<Rightarrow> page" where
  "continueToScreenSharing st =
     (if setupStep st = VoiceSelectionStep \<and> selectedVoice st \<noteq> None
      then st\<lparr>setupStep := ScreenShareStep\<rparr> else st)"

text \<open>The checklist in its order, and what it is for one step to follow another directly.\<close>

fun step_rank :: "setup_step \<Rightarrow> nat" where
  "step_rank PermissionsStep = 0"
| "step_rank VoiceSelectionStep = 1"
| "step_rank ScreenShareStep = 2"
| "step_rank ReadyStep = 3"

definition advances_in_sequence :: "setup_step \<Rightarrow> setup_step \<Rightarrow> bool" where
  "advances_in_sequence a b = (b = a \<or> step_rank b = Suc (step_rank a))"

text \<open>
  \<^verbatim>\<open>startScreenShare\<close>. The request is rejected, or yields a stream with or without a video
  track (\<^verbatim>\<open>getVideoTracks()[0]\<close> of a stream without one is \<^verbatim>\<open>undefined\<close>, and the
  assignment to its \<^verbatim>\<open>onended\<close> throws into the \<^verbatim>\<open>catch\<close>). The function only exists on
  the setup screen, so the handler it registers closes over the \<^verbatim>\<open>setupComplete\<close> and
  \<^verbatim>\<open>ws\<close> of a render of that screen.
\<close>

datatype display_outcome = DisplayRejected | DisplayStream bool

definition startScreenShare :: "display_outcome \<Rightarrow> page \<Rightarrow> page" where
  "startScreenShare outcome st =
     (case outcome of
        DisplayRejected \<Rightarrow>
          st\<lparr>error := JStr ''Screen sharing is required for the interview. Please allow screen sharing to continue.''\<rparr>
      | DisplayStream has_track \<Rightarrow>
          (let st1 = st\<lparr>screenStream := True, screenShareActive := True, setupStep := ReadyStep\<rparr>
           in if has_track
              then st1\<lparr>screenOnEnded :=
                         Some \<lparr>cap_setupComplete = setupComplete st, cap_ws = (ws st \<noteq> None)\<rparr>\<rparr>
              else st1\<lparr>error := JStr ''Screen sharing is required for the interview. Please allow screen sharing to continue.''\<rparr>))"

text \<open>
  The track's \<^verbatim>\<open>ended\<close> event runs the registered closure, once:
  \<^verbatim>\<open>setScreenShareActive(false); if (setupComplete && ws) ws.send(...)\<close>, with the captured
  \<^verbatim>\<open>setupComplete\<close> and \<^verbatim>\<open>ws\<close>.
\<close>

definition screenTrackEnded :: "page \<Rightarrow> run" where
  "screenTrackEnded st =
     (case screenOnEnded st of
        None \<Rightarrow> (st, [], None)
      | Some c \<Rightarrow>
          (let st1 = st\<lparr>screenShareActive := False, screenOnEnded := None\<rparr>
           in if cap_setupComplete c \<and> cap_ws c
              then (case opt_send (ws st) (ScreenShareMsg ''ended'') of
                      Inl e \<Rightarrow> (st1, [], Some e)
                    | Inr out \<Rightarrow> (st1, out, None))
              else (st1, [], None)))"

text \<open>
  \<^verbatim>\<open>enterFullscreen\<close>: the document has no \<^verbatim>\<open>requestFullscreen\<close>, or the request is
  granted, or it rejects and the \<^verbatim>\<open>catch\<close> sets the error. Nothing is returned or re-thrown.
\<close>

datatype fullscreen_outcome = FsUnsupported | FsEntered | FsRejected

fun enterFullscreen :: "fullscreen_outcome \<Rightarrow> page \<Rightarrow> page" where
  "enterFullscreen FsRejected st =
     st\<lparr>error := JStr ''Fullscreen mode is required for the interview. Please allow fullscreen access.''\<rparr>"
| "enterFullscreen FsEntered st = st"
| "enterFullscreen FsUnsupported st = st"

definition completeSetup :: "fullscreen_outcome \<Rightarrow> page \<Rightarrow> page" where
  "completeSetup fs st =
     (if cameraPermission st = Granted \<and> micPermission st = Granted \<and> screenShareActive st
      then (enterFullscreen fs st)\<lparr>setupComplete := True, timerActive := True\<rparr>
      else st)"

section \<open>The protocol socket's life cycle\<close>

text \<open>The effect that creates the socket, and the \<^verbatim>\<open>onopen\<close>, \<^verbatim>\<open>onclose\<close> and \<^verbatim>\<open>onerror\<close> handlers.\<close>

definition wsEffect :: "page \<Rightarrow> page" where
  "wsEffect st =
     (if \<not> setupComplete st \<or> jobId st = [] \<or> resumeId st = [] then st
      else st\<lparr>ws := Some CONNECTING\<rparr>)"

definition socket_onopen :: "page \<Rightarrow> run" where
  "socket_onopen st =
     (st\<lparr>ws := Some OPEN, isConnected := True, error := JNull\<rparr>,
      [ScreenShareMsg ''started''], None)"

definition socket_onclose :: "int \<Rightarrow> page \<Rightarrow> page" where
  "socket_onclose code st =
     (let st1 = st\<lparr>ws := Some CLOSED, isConnected := False\<rparr>
      in if code \<noteq> 1000 then st1\<lparr>error := JStr ''Connection lost. Please refresh.''\<rparr> else st1)"

definition socket_onerror :: "page \<Rightarrow> page" where
  "socket_onerror st = st\<lparr>error := JStr ''Connection error. Please try again.''\<rparr>"

section \<open>Integrity monitoring, the timer and the end button\<close>

text \<open>
  \<^verbatim>\<open>onVisibilityChange\<close>, with \<^verbatim>\<open>document.hidden\<close> as its argument. The warning texts
  are given without their leading warning sign, which is not an ASCII character.
\<close>

definition onVisibilityChange :: "bool \<Rightarrow> page \<Rightarrow> run" where
  "onVisibilityChange hidden st =
     (if hidden \<and> setupComplete st then
        (let newCount = tabSwitchCount st + 1;
             st1 = st\<lparr>tabSwitchCount := newCount\<rparr>;
             out1 = guarded_send (ws st) (TabSwitchMsg newCount);
             st2 = (if newCount = 1
                    then st1\<lparr>proctorWarning := Some ''Warning: You left the tab. 2 chances left!''\<rparr>
                    else st1);
             st3 = (if newCount = 2
                    then st2\<lparr>proctorWarning := Some ''Last warning: Next tab switch will end your interview!''\<rparr>
                    else st2)
         in if newCount \<ge> 3 then
              (case opt_send (ws st) (AnswerMsg ''end interview'') of
                 Inl e \<Rightarrow> (st3, out1, Some e)
               | Inr out2 \<Rightarrow>
                   (st3\<lparr>error := JStr ''Interview ended: Too many tab switches.'',
                        interviewEndedByProctor := True\<rparr>, out1 @ out2, None))
            else (st3, out1, None))
      else (st, [], None))"

text \<open>
  \<^verbatim>\<open>handleFullscreenChange\<close>, with the time stamp and the result of
  \<^verbatim>\<open>checkFullscreenStatus()\<close> as arguments. At the first exit it also arms a timeout that
  calls \<^verbatim>\<open>enterFullscreen\<close> three seconds later.
\<close>

definition handleFullscreenChange :: "string \<Rightarrow> bool \<Rightarrow> page \<Rightarrow> run" where
  "handleFullscreenChange now isCurrentlyFullscreen st =
     (let st0 = st\<lparr>isFullscreen := isCurrentlyFullscreen\<rparr>
      in if \<not> isCurrentlyFullscreen \<and> setupComplete st \<and> \<not> interviewEndedByProctor st then
           (let newCount = fullscreenExitCount st + 1;
                st1 = st0\<lparr>fullscreenExitCount := newCount\<rparr>;
                out1 = guarded_send (ws st) (FullscreenViolationMsg newCount now)
            in if newCount = 1 then
                 (st1\<lparr>fullscreenWarning := Some ''Warning: Fullscreen mode is required. Please return to fullscreen. 1 chance left!'',
                      showFullscreenPrompt := True\<rparr>, out1, None)
               else if newCount \<ge> 2 then
                 (st1\<lparr>fullscreenWarning := Some ''Interview ended: Multiple fullscreen violations detected.'',
                      interviewEndedByProctor := True\<rparr>,
                  out1 @ guarded_send (ws st)
                           (AnswerReasonMsg ''end interview'' ''fullscreen_violations'' newCount),
                  None)
               else (st1, out1, None))
         else (st0, [], None))"

text \<open>
  The timer effect. It runs after every render in which one of \<^verbatim>\<open>timerSec\<close>,
  \<^verbatim>\<open>timerActive\<close>, \<^verbatim>\<open>status.is_complete\<close>, \<^verbatim>\<open>interviewEndedByProctor\<close> and \<^verbatim>\<open>ws\<close> has
  changed. The second component tells whether it armed the one-second timeout.
\<close>

definition timerEffect :: "page \<Rightarrow> run \<times> bool" where
  "timerEffect st =
     (if \<not> timerActive st \<or> is_complete (status st) \<or> interviewEndedByProctor st
      then ((st, [], None), False)
      else if timerSec st \<le> 0 then
        (let st1 = st\<lparr>timerActive := False\<rparr>
         in case opt_send (ws st) (AnswerMsg ''end interview'') of
              Inl e \<Rightarrow> ((st1, [], Some e), False)
            | Inr out \<Rightarrow>
                ((st1\<lparr>error := JStr ''Interview ended: Time limit reached.'',
                      interviewEndedByProctor := True\<rparr>, out, None), False))
      else ((st, [], None), True))"

text \<open>The timeout's callback, \<^verbatim>\<open>setTimerSec(s => s - 1)\<close>.\<close>

definition timerTimeout :: "page \<Rightarrow> page" where
  "timerTimeout st = st\<lparr>timerSec := timerSec st - 1\<rparr>"

text \<open>
  One second of the timer: if the effect of the current render armed the timeout, the
  timeout fires and the effect runs again on the new state.
\<close>

definition tick :: "page \<Rightarrow> run" where
  "tick st = (if snd (timerEffect st) then fst (timerEffect (timerTimeout st)) else (st, [], None))"

text \<open>
  The end button: disabled unless connected and neither complete nor ended; its handler
  sends the end-of-session message after the user has confirmed, and sets no state.
\<close>

definition endInterviewClick :: "bool \<Rightarrow> page \<Rightarrow> run" where
  "endInterviewClick confirmed st =
     (if \<not> isConnected st \<or> is_complete (status st) \<or> interviewEndedByProctor st
      then (st, [], None)
      else if confirmed then
        (case opt_send (ws st) (AnswerMsg ''end interview'') of
           Inl e \<Rightarrow> (st, [], Some e)
         | Inr out \<Rightarrow> (st, out, None))
      else (st, [], None))"

text \<open>
  The four sources of termination as events, one handler run per event, each followed by
  the timer effect of the render it causes; a session is a sequence of them.
\<close>

datatype event =
    VisibilityChange bool
  | FullscreenChange string bool
  | TimerTimeout
  | EndClick bool

fun handle :: "event \<Rightarrow> page \<Rightarrow> run" where
  "handle (VisibilityChange hidden) st = onVisibilityChange hidden st"
| "handle (FullscreenChange now fs) st = handleFullscreenChange now fs st"
| "handle TimerTimeout st = (if snd (timerEffect st) then (timerTimeout st, [], None) else (st, [], None))"
| "handle (EndClick confirmed) st = endInterviewClick confirmed st"

definition dispatch :: "event \<Rightarrow> page \<Rightarrow> page \<times> wire list" where
  "dispatch e st =
     (case handle e st of
        (st1, out1, ex1) \<Rightarrow>
          (case fst (timerEffect st1) of (st2, out2, ex2) \<Rightarrow> (st2, out1 @ out2)))"

fun session_run :: "event list \<Rightarrow> page \<Rightarrow> page \<times> wire list" where
  "session_run [] st = (st, [])"
| "session_run (e # es) st =
     (case dispatch e st of
        (st1, out1) \<Rightarrow> (case session_run es st1 of (st2, out2) \<Rightarrow> (st2, out1 @ out2)))"

definition end_session_count :: "wire list \<Rightarrow> nat" where
  "end_session_count out = length (filter is_end_session out)"

section \<open>Speech capture\<close>

definition cleanupVoice :: "page \<Rightarrow> page" where
  "cleanupVoice st =
     st\<lparr>recorderRef := False, dgConnRef := False, isListening := False,
        currentTranscript := [], bufferRef := []\<rparr>"

text \<open>
  What \<^verbatim>\<open>startListening\<close> meets outside the page: the token endpoint (the fetch rejects,
  the status is not ok, the body does not parse, or the body has an \<^verbatim>\<open>error\<close> and a
  \<^verbatim>\<open>token\<close> string, empty when absent), the microphone request, which MIME types the
  recorder supports, whether the recorder's constructor throws for the chosen option, and
  whether opening the live transcription throws.
\<close>

datatype token_outcome =
    FetchRejects thrown
  | HttpStatus nat
  | JsonRejects thrown
  | TokenBody string string

record listen_env =
  token :: token_outcome
  recording_stream :: "thrown option"
  supported :: "string \<Rightarrow> bool"
  recorder_ctor :: "string option \<Rightarrow> thrown option"
  listen_live :: "thrown option"

datatype capture_effect = NewRecorder "string option" | OpenTranscription

fun show_nat :: "nat \<Rightarrow> string" where
  "show_nat n =
     (if n < 10 then [char_of (48 + n)]
      else show_nat (n div 10) @ [char_of (48 + n mod 10)])"

fun token_error :: "token_outcome \<Rightarrow> thrown option" where
  "token_error (FetchRejects e) = Some e"
| "token_error (HttpStatus n) = Some (ErrorObj ''Error'' (''HTTP '' @ show_nat n))"
| "token_error (JsonRejects e) = Some e"
| "token_error (TokenBody err tok) =
     (if err \<noteq> [] \<or> tok = []
      then Some (ErrorObj ''Error'' (if err \<noteq> [] then err else ''No token received''))
      else None)"

definition supportedTypes :: "string list" where
  "supportedTypes =
     [''audio/webm;codecs=opus'', ''audio/webm'', ''audio/ogg;codecs=opus'',
      ''audio/mp4'', ''audio/wav'']"

text \<open>The loop over the candidates: the first supported one, or the empty string.\<close>

fun choose_mime :: "(string \<Rightarrow> bool) \<Rightarrow> string list \<Rightarrow> string" where
  "choose_mime isTypeSupported [] = []"
| "choose_mime isTypeSupported (t # ts) =
     (if isTypeSupported t then t else choose_mime isTypeSupported ts)"

fun voice_error_message :: "thrown \<Rightarrow> string" where
  "voice_error_message (ErrorObj name msg) =
     ''Could not start voice recognition. '' @
       (if js_includes msg ''No supported audio format''
        then ''Your browser doesn'' @ [CHR 0x27] @ ''t support the required audio formats.''
        else if js_includes msg ''MediaRecorder''
        then ''Audio recording is not supported in your browser.''
        else msg)"
| "voice_error_message NonError = ''Could not start voice recognition. ''"

definition listen_catch :: "thrown \<Rightarrow> page \<Rightarrow> page" where
  "listen_catch e st = st\<lparr>error := JStr (voice_error_message e), isListening := False\<rparr>"

definition startListening :: "listen_env \<Rightarrow> page \<Rightarrow> page \<times> capture_effect list" where
  "startListening env st =
     (if \<not> audioStream st \<or> ws st \<noteq> Some OPEN then (st, [])
      else
        (let st0 = (cleanupVoice st)\<lparr>isListening := True, currentTranscript := [], bufferRef := []\<rparr>
         in case token_error (token env) of
              Some e \<Rightarrow> (listen_catch e st0, [])
            | None \<Rightarrow>
                (case recording_stream env of
                   Some e \<Rightarrow> (listen_catch e st0, [])
                 | None \<Rightarrow>
                     (let mimeType = choose_mime (supported env) supportedTypes;
                          opt = (if mimeType = [] then None else Some mimeType)
                      in case recorder_ctor env opt of
                           Some e \<Rightarrow> (listen_catch e st0, [])
                         | None \<Rightarrow>
                             (let st1 = st0\<lparr>recorderRef := True\<rparr>
                              in case listen_live env of
                                   Some e \<Rightarrow> (listen_catch e st1, [NewRecorder opt])
                                 | None \<Rightarrow>
                                     (st1\<lparr>dgConnRef := True\<rparr>,
                                      [NewRecorder opt, OpenTranscription]))))))"

text \<open>
  The transcript handler. An event carries the transcript of the first alternative, if
  there is one, and the \<^verbatim>\<open>is_final\<close> flag.
\<close>

type_synonym transcript_event = "string option \<times> bool"

fun onTranscript :: "transcript_event \<Rightarrow> page \<Rightarrow> page" where
  "onTranscript (None, fin) st = st"
| "onTranscript (Some t, fin) st =
     (let txt = trim t
      in if txt \<noteq> [] \<and> fin then
           (let buf = bufferRef st @ (if bufferRef st \<noteq> [] then '' '' else []) @ txt
            in st\<lparr>bufferRef := buf, currentTranscript := buf\<rparr>)
         else if txt \<noteq> [] then st\<lparr>currentTranscript := bufferRef st @ '' '' @ txt\<rparr>
         else st)"

definition stopListening :: "page \<Rightarrow> page \<times> wire list" where
  "stopListening st =
     (let finalTranscript = trim (bufferRef st);
          st1 = cleanupVoice st
      in if finalTranscript \<noteq> [] \<and> ws st = Some OPEN
         then (st1\<lparr>currentTranscript := [], bufferRef := []\<rparr>, [AnswerMsg finalTranscript])
         else ((if finalTranscript = []
                then st1\<lparr>error := JStr ''No speech detected. Please try speaking again.''\<rparr>
                else st1), []))"

text \<open>
  The fragments one activation appends to the buffer: the trimmed transcripts of the final
  events that are not blank, in arrival order; and a list of strings joined by single
  spaces.
\<close>

fun fragments :: "transcript_event list \<Rightarrow> string list" where
  "fragments [] = []"
| "fragments ((None, fin) # es) = fragments es"
| "fragments ((Some t, fin) # es) =
     (if trim t \<noteq> [] \<and> fin then trim t # fragments es else fragments es)"

fun join_spaces :: "string list \<Rightarrow> string" where
  "join_spaces [] = []"
| "join_spaces [f] = f"
| "join_spaces (f # g # fs) = f @ '' '' @ join_spaces (g # fs)"

definition capture :: "transcript_event list \<Rightarrow> page \<Rightarrow> page" where
  "capture es st = foldl (\<lambda>s e. onTranscript e s) st es"

section \<open>Speech playback and the voice test\<close>

text \<open>
  What \<^verbatim>\<open>speakText\<close> meets: whether the provider is available, what its
  \<^verbatim>\<open>textToSpeech\<close> does (rejects, resolves to nothing, resolves to audio), whether
  \<^verbatim>\<open>playAudio\<close> resolves, and whether the browser has \<^verbatim>\<open>speechSynthesis\<close>.
\<close>

datatype tts_outcome = TtsRejects | TtsNothing | TtsAudio

record tts_env =
  available :: bool
  tts :: tts_outcome
  play_resolves :: bool
  has_synth :: bool

text \<open>
  \<^verbatim>\<open>speakText\<close> up to the point where its promise resolves, with the \<^verbatim>\<open>selectedVoice\<close>
  its closure holds. The second component tells whether it queued a browser utterance,
  whose \<^verbatim>\<open>onend\<close> or \<^verbatim>\<open>onerror\<close> calls \<^verbatim>\<open>setIsSpeaking(false)\<close> later.
\<close>

definition speakText :: "tts_env \<Rightarrow> string option \<Rightarrow> string \<Rightarrow> page \<Rightarrow> page \<times> bool" where
  "speakText env voice text st =
     (if trim text = [] then (st, False)
      else
        (let st1 = st\<lparr>isSpeaking := True\<rparr>;
             caught = (st1\<lparr>isSpeaking := False\<rparr>, has_synth env);
             fallback = (if has_synth env then (st1, True) else (st1\<lparr>isSpeaking := False\<rparr>, False))
         in if available env \<and> voice \<noteq> None then
              (case tts env of
                 TtsRejects \<Rightarrow> caught
               | TtsNothing \<Rightarrow> fallback
               | TtsAudio \<Rightarrow>
                   (if play_resolves env then (st1\<lparr>isSpeaking := False\<rparr>, False) else caught))
            else fallback))"

definition utteranceEnded :: "page \<Rightarrow> page" where
  "utteranceEnded st = st\<lparr>isSpeaking := False\<rparr>"

text \<open>
  The test button of a voice. The click stores the selection it sees as
  \<^verbatim>\<open>originalVoice\<close>, selects the tested voice and arms a timeout; the timeout speaks the
  phrase with the \<^verbatim>\<open>speakText\<close> of the click's render and then restores the selection.
\<close>

definition testVoiceClick :: "string \<Rightarrow> page \<Rightarrow> page" where
  "testVoiceClick voice st = st\<lparr>selectedVoice := Some voice\<rparr>"

definition testVoiceTimeout :: "tts_env \<Rightarrow> string option \<Rightarrow> page \<Rightarrow> page \<times> bool" where
  "testVoiceTimeout env originalVoice st =
     (case speakText env originalVoice ''Hello! This is a test of my voice. How do I sound?'' st of
        (st1, queued) \<Rightarrow> (st1\<lparr>selectedVoice := originalVoice\<rparr>, queued))"

definition testVoice :: "tts_env \<Rightarrow> string \<Rightarrow> page \<Rightarrow> page" where
  "testVoice env voice st =
     (let originalVoice = selectedVoice st
      in case testVoiceTimeout env originalVoice (testVoiceClick voice st) of
           (st1, queued) \<Rightarrow> (if queued then utteranceEnded st1 else st1))"

section \<open>Inbound frames\<close>

text \<open>
  A frame either fails \<^verbatim>\<open>JSON.parse\<close> or yields a value. Reading a property of
  \<^verbatim>\<open>null\<close> throws; a primitive or an array has none of the properties the handler reads;
  an object has what its (distinct) keys give it.
\<close>

datatype frame = Malformed | Parsed jsval

fun get_prop :: "jsval \<Rightarrow> string \<Rightarrow> jsval" where
  "get_prop (JObj fs) k = (case map_of fs k of None \<Rightarrow> JUndef | Some v \<Rightarrow> v)"
| "get_prop v k = JUndef"

fun read_prop :: "jsval \<Rightarrow> string \<Rightarrow> exn + jsval" where
  "read_prop JUndef k = Inl TypeError"
| "read_prop JNull k = Inl TypeError"
| "read_prop v k = Inr (get_prop v k)"

text \<open>\<^verbatim>\<open>a || b\<close>.\<close>

definition js_or :: "jsval \<Rightarrow> jsval \<Rightarrow> jsval" where
  "js_or a b = (if truthy a then a else b)"

text \<open>
  \<^verbatim>\<open>a >= b\<close>. Between \<^verbatim>\<open>undefined\<close>, \<^verbatim>\<open>null\<close>, booleans and numbers the operands are
  converted to numbers (\<^verbatim>\<open>undefined\<close> to NaN, which compares false with everything) and
  compared. When a string, an array or an object takes part, the conversion is the
  runtime's, and for an object it can throw; it is the parameter \<open>coerce\<close>.
\<close>

fun prim_number :: "jsval \<Rightarrow> int option option" where
  "prim_number JUndef = Some None"
| "prim_number JNull = Some (Some 0)"
| "prim_number (JBool b) = Some (Some (if b then 1 else 0))"
| "prim_number (JNum n) = Some (Some n)"
| "prim_number v = None"

definition js_ge :: "(jsval \<Rightarrow> jsval \<Rightarrow> exn + bool) \<Rightarrow> jsval \<Rightarrow> jsval \<Rightarrow> exn + bool" where
  "js_ge coerce a b =
     (case (prim_number a, prim_number b) of
        (Some x, Some y) \<Rightarrow>
          Inr (case (x, y) of (Some m, Some n) \<Rightarrow> n \<le> m | _ \<Rightarrow> False)
      | _ \<Rightarrow> coerce a b)"

text \<open>
  \<^verbatim>\<open>!type?.includes('screen_share')\<close>: true for a missing type, the substring test for a
  string, the membership test for an array, and a \<^verbatim>\<open>TypeError\<close> for a number, a boolean
  or an object, which have no callable \<^verbatim>\<open>includes\<close>.
\<close>

fun not_screen_share :: "jsval \<Rightarrow> exn + bool" where
  "not_screen_share JUndef = Inr True"
| "not_screen_share JNull = Inr True"
| "not_screen_share (JStr s) = Inr (\<not> js_includes s ''screen_share'')"
| "not_screen_share (JArr xs) = Inr (JStr ''screen_share'' \<notin> set xs)"
| "not_screen_share v = Inl TypeError"

text \<open>
  The body of the \<^verbatim>\<open>try\<close> block of \<^verbatim>\<open>socket.onmessage\<close>, for a frame that parsed. Its
  arguments are the \<^verbatim>\<open>status\<close> that the effect's closure holds, the ready state of the
  socket the handler belongs to, and the parsed value. It returns the state, the frames
  sent, the texts handed to \<^verbatim>\<open>speakText\<close>, and the exception that ended it, if any.
\<close>

definition onmessage_body ::
  "(jsval \<Rightarrow> jsval \<Rightarrow> exn + bool) \<Rightarrow> interview_status \<Rightarrow> readyState \<Rightarrow> jsval \<Rightarrow> page
     \<Rightarrow> page \<times> wire list \<times> jsval list \<times> exn option" where
  "onmessage_body coerce captured rs data st =
     (case read_prop data ''error'' of
        Inl e \<Rightarrow> (st, [], [], Some e)
      | Inr err \<Rightarrow>
          if truthy err then (st\<lparr>error := err\<rparr>, [], [], None)
          else
            (let text = get_prop data ''text'';
                 qc = get_prop data ''question_count'';
                 mq = get_prop data ''max_questions'';
                 ty = get_prop data ''type''
             in if ty = JStr ''screen_share_request'' then
                  (case sock_send rs (ScreenShareMsg ''started'') of
                     Inl e \<Rightarrow> (st, [], [], Some e)
                   | Inr out \<Rightarrow> (st, out, [], None))
                else if ty = JStr ''screen_share_confirmed'' then (st, [], [], None)
                else
                  (case (if ty = JStr ''interview_complete''
                         then Inr \<lparr>question_count = js_or mq (max_questions captured),
                                   max_questions = js_or mq (max_questions captured),
                                   is_complete = True\<rparr>
                         else (case js_ge coerce qc (js_or mq (max_questions captured)) of
                                 Inl e \<Rightarrow> Inl e
                               | Inr b \<Rightarrow>
                                   Inr \<lparr>question_count = qc,
                                        max_questions = js_or mq (max_questions captured),
                                        is_complete = b\<rparr>)) of
                     Inl e \<Rightarrow> (st, [], [], Some e)
                   | Inr s \<Rightarrow>
                       (let st1 = st\<lparr>status := s\<rparr>
                        in if truthy text then
                             (case not_screen_share ty of
                                Inl e \<Rightarrow> (st1, [], [], Some e)
                              | Inr speak \<Rightarrow>
                                  (if speak then (st1\<lparr>aiResponse := text\<rparr>, [], [text], None)
                                   else (st1, [], [], None)))
                           else (st1, [], [], None)))))"

text \<open>
  The whole \<^verbatim>\<open>try\<close> block: \<^verbatim>\<open>JSON.parse\<close> throws a \<^verbatim>\<open>SyntaxError\<close> on a frame that does
  not parse, and the body runs on one that does.
\<close>

definition onmessage_try ::
  "(jsval \<Rightarrow> jsval \<Rightarrow> exn + bool) \<Rightarrow> interview_status \<Rightarrow> readyState \<Rightarrow> frame \<Rightarrow> page
     \<Rightarrow> page \<times> wire list \<times> jsval list \<times> exn option" where
  "onmessage_try coerce captured rs fr st =
     (case fr of
        Malformed \<Rightarrow> (st, [], [], Some SyntaxError)
      | Parsed data \<Rightarrow> onmessage_body coerce captured rs data st)"

text \<open>
  The handler: the \<^verbatim>\<open>catch\<close> block sets the error text for whatever the \<^verbatim>\<open>try\<close> block
  threw. The last component is the exception that leaves the handler.
\<close>

definition onmessage ::
  "(jsval \<Rightarrow> jsval \<Rightarrow> exn + bool) \<Rightarrow> interview_status \<Rightarrow> readyState \<Rightarrow> frame \<Rightarrow> page
     \<Rightarrow> page \<times> wire list \<times> jsval list \<times> exn option" where
  "onmessage coerce captured rs fr st =
     (case onmessage_try coerce captured rs fr st of
        (st1, out, spoken, Some e) \<Rightarrow>
          (st1\<lparr>error := JStr ''Invalid response from server''\<rparr>, out, spoken, None)
      | (st1, out, spoken, None) \<Rightarrow> (st1, out, spoken, None))"

text \<open>
  The message variants the protocol names, as the handler can tell them apart: the three
  type tags it tests for, the tag \<^verbatim>\<open>question\<close>, and a frame with an \<^verbatim>\<open>error\<close>.
\<close>

definition known_variant :: "jsval \<Rightarrow> bool" where
  "known_variant data =
     (truthy (get_prop data ''error'') \<or>
      get_prop data ''type'' \<in>
        {JStr ''screen_share_request'', JStr ''screen_share_confirmed'',
         JStr ''interview_complete'', JStr ''question''})"

text \<open>An error is on the screen when the \<^verbatim>\<open>error\<close> cell is truthy.\<close>

definition error_surfaced :: "page \<Rightarrow> bool" where
  "error_surfaced st = truthy (error st)"

text \<open>A conversion that never throws, for evaluating the handler on concrete frames.\<close>

definition no_coercion :: "jsval \<Rightarrow> jsval \<Rightarrow> exn + bool" where
  "no_coercion a b = Inr False"

section \<open>Releasing the media resources\<close>

text \<open>
  The effect whose cleanup stops the voice capture, stops the tracks of the three streams,
  cancels speech synthesis, leaves fullscreen and closes the socket. Its dependencies are
  the three stream cells and the \<^verbatim>\<open>ws\<close> cell, so the cleanup of the previous render runs
  whenever one of them changes, with the streams and the socket of that previous render.
  A track stopped by \<^verbatim>\<open>stop()\<close> fires no \<^verbatim>\<open>ended\<close> event: stopping the screen stream
  disarms its end-of-stream handler. The camera and microphone tracks have no cell of
  their own in the state. The second component tells whether \<^verbatim>\<open>exitFullscreen()\<close> was
  called, which is when \<^verbatim>\<open>checkFullscreenStatus()\<close> holds.
\<close>

definition effect_deps :: "page \<Rightarrow> bool \<times> bool \<times> bool \<times> bool" where
  "effect_deps st = (videoStream st, audioStream st, screenStream st, ws st \<noteq> None)"

fun socket_close :: "readyState \<Rightarrow> readyState" where
  "socket_close CONNECTING = CLOSING"
| "socket_close OPEN = CLOSING"
| "socket_close CLOSING = CLOSING"
| "socket_close CLOSED = CLOSED"

definition resourceCleanup :: "page \<Rightarrow> bool \<Rightarrow> page \<Rightarrow> page \<times> bool" where
  "resourceCleanup captured isCurrentlyFullscreen st =
     (let st1 = cleanupVoice st;
          st2 = (if screenStream captured then st1\<lparr>screenOnEnded := None\<rparr> else st1);
          st3 = (if ws captured \<noteq> None then st2\<lparr>ws := map_option socket_close (ws st2)\<rparr>
                 else st2)
      in (st3, isCurrentlyFullscreen))"

definition resourceEffect :: "page \<Rightarrow> bool \<Rightarrow> page \<Rightarrow> page \<times> bool" where
  "resourceEffect prev isCurrentlyFullscreen st =
     (if effect_deps st = effect_deps prev then (st, False)
      else resourceCleanup prev isCurrentlyFullscreen st)"

section \<open>Scenarios\<close>

text \<open>
  A candidate on the first render; after granting camera and microphone; after sharing a
  screen with a video track.
\<close>

definition setup_start :: page where
  "setup_start = initial_page\<lparr>jobId := ''job'', resumeId := ''resume''\<rparr>"

definition permitted_page :: page where
  "permitted_page =
     fst (resourceEffect setup_start False (requestPermissions None None setup_start))"

definition ready_page :: page where
  "ready_page =
     fst (resourceEffect permitted_page False
            (startScreenShare (DisplayStream True) permitted_page))"

text \<open>
  The same candidate starts the interview and fullscreen is granted: the document enters
  fullscreen and the change event arrives. The socket effect then sets the \<^verbatim>\<open>ws\<close> cell,
  the cleanup of the previous render runs in fullscreen, and the change event of the exit
  it asks for arrives while the socket is still connecting. Then the socket opens.
\<close>

definition started_page :: page where
  "started_page =
     fst (handleFullscreenChange ''2025-01-01T09:00:00.000Z'' True
            (completeSetup FsEntered ready_page))"

definition connecting_page :: page where
  "connecting_page =
     (case resourceEffect started_page True (wsEffect started_page) of
        (st, exits) \<Rightarrow>
          if exits then fst (handleFullscreenChange ''2025-01-01T09:00:00.100Z'' False st)
          else st)"

definition active_page :: page where
  "active_page = fst (socket_onopen connecting_page)"

text \<open>A run of seconds: the frames of each tick, in order.\<close>

fun run_ticks :: "nat \<Rightarrow> page \<Rightarrow> page \<times> wire list" where
  "run_ticks 0 st = (st, [])"
| "run_ticks (Suc k) st =
     (case tick st of
        (st1, out1, ex) \<Rightarrow> (case run_ticks k st1 of (st2, out2) \<Rightarrow> (st2, out1 @ out2)))"

text \<open>A browser in which the recorder supports none of the candidate types, and nothing else fails.\<close>

definition no_codec_env :: listen_env where
  "no_codec_env =
     \<lparr>token = TokenBody [] ''token'', recording_stream = None, supported = (\<lambda>t. False),
      recorder_ctor = (\<lambda>opt. None), listen_live = None\<rparr>"

text \<open>A browser in which the recorder cannot be constructed at all.\<close>

definition no_recorder_env :: listen_env where
  "no_recorder_env =
     \<lparr>token = TokenBody [] ''token'', recording_stream = None, supported = (\<lambda>t. False),
      recorder_ctor = (\<lambda>opt. Some (ErrorObj ''NotSupportedError'' ''Failed to construct MediaRecorder'')),
      listen_live = None\<rparr>"

text \<open>A string that is not empty and neither starts nor ends with white space.\<close>

definition clean :: "string \<Rightarrow> bool" where
  "clean s = (s \<noteq> [] \<and> \<not> is_space (hd s) \<and> \<not> is_space (last s))"

text \<open>
  The timer runs while it is active and the interview is neither complete nor ended; and
  what the transcript handler does to the buffer with one fragment.
\<close>

definition timer_running :: "page \<Rightarrow> bool" where
  "timer_running st =
     (timerActive st \<and> \<not> is_complete (status st) \<and> \<not> interviewEndedByProctor st)"

definition append_fragment :: "string \<Rightarrow> string \<Rightarrow> string" where
  "append_fragment b f = b @ (if b \<noteq> [] then '' '' else []) @ f"

section \<open>The scenarios, evaluated\<close>

lemmas scenario_defs =
  active_page_def connecting_page_def started_page_def ready_page_def permitted_page_def
  setup_start_def resourceEffect_def resourceCleanup_def effect_deps_def cleanupVoice_def
  handleFullscreenChange_def guarded_send_def completeSetup_def startScreenShare_def
  requestPermissions_def initial_page_def wsEffect_def socket_onopen_def TIMER_SEC_def

lemma active_page_eq:
  "active_page =
     \<lparr>jobId = ''job'', resumeId = ''resume'', ws = Some OPEN, isConnected = True,
      error = JNull,
      status = \<lparr>question_count = JNum 0, max_questions = JNum 8, is_complete = False\<rparr>,
      setupComplete = True, cameraPermission = Granted, micPermission = Granted,
      screenShareActive = True, setupStep = ReadyStep,
      videoStream = True, audioStream = True, screenStream = True,
      screenOnEnded = None,
      dgConnRef = False, recorderRef = False,
      isListening = False, isSpeaking = False, currentTranscript = [],
      aiResponse = JStr [], bufferRef = [], selectedVoice = None,
      tabSwitchCount = 0, proctorWarning = None, interviewEndedByProctor = False,
      fullscreenExitCount = 1,
      fullscreenWarning =
        Some ''Warning: Fullscreen mode is required. Please return to fullscreen. 1 chance left!'',
      isFullscreen = False, showFullscreenPrompt = True, timerSec = 600,
      timerActive = True\<rparr>"
  by (simp add: scenario_defs)

section \<open>Termination triggers\<close>

text \<open>
  The fullscreen handler and the timer effect both test \<^verbatim>\<open>interviewEndedByProctor\<close> and
  do nothing to the session once it is set.
\<close>

lemma handleFullscreenChange_after_end:
  "interviewEndedByProctor st \<Longrightarrow>
     handleFullscreenChange now fs st = (st\<lparr>isFullscreen := fs\<rparr>, [], None)"
  by (simp add: handleFullscreenChange_def)

lemma timerEffect_after_end:
  "is_complete (status st) \<or> interviewEndedByProctor st \<Longrightarrow>
     timerEffect st = ((st, [], None), False)"
  by (auto simp: timerEffect_def)

text \<open>
  The visibility handler tests \<^verbatim>\<open>setupComplete\<close> only: in an ended session with an open
  socket every further hidden event counts and sends the end-of-session message again.
\<close>

lemma onVisibilityChange_after_end:
  assumes "setupComplete st" and "ws st = Some OPEN" and "2 \<le> tabSwitchCount st"
  shows "onVisibilityChange True st =
           (st\<lparr>tabSwitchCount := tabSwitchCount st + 1,
               error := JStr ''Interview ended: Too many tab switches.'',
               interviewEndedByProctor := True\<rparr>,
            [TabSwitchMsg (tabSwitchCount st + 1), AnswerMsg ''end interview''], None)"
  using assms by (simp add: onVisibilityChange_def guarded_send_def Let_def)

text \<open>
  The end button sends and sets nothing, so it stays enabled and a second confirmed click
  sends again.
\<close>

lemma end_click_twice:
  "snd (session_run [EndClick True, EndClick True] active_page) =
     [AnswerMsg ''end interview'', AnswerMsg ''end interview'']"
  by (simp add: active_page_eq dispatch_def endInterviewClick_def timerEffect_def)

text \<open>
  Claim C1. At most one end-of-session message is ever sent, and after the third tab
  switch has ended the session a further hidden event is a no-op. The code does otherwise:
  in the active session with an open socket, four hidden events in a row put two
  end-of-session messages on the socket, the fourth event sends \<^verbatim>\<open>tab-switch\<close> with count
  4, and the counter stands at 4 afterwards.
\<close>

theorem tab_switch_after_termination_sends_again:
  "snd (session_run [VisibilityChange True, VisibilityChange True,
                     VisibilityChange True, VisibilityChange True] active_page) =
     [TabSwitchMsg 1, TabSwitchMsg 2, TabSwitchMsg 3, AnswerMsg ''end interview'',
      TabSwitchMsg 4, AnswerMsg ''end interview'']
   \<and> end_session_count
       (snd (session_run [VisibilityChange True, VisibilityChange True,
                          VisibilityChange True, VisibilityChange True] active_page)) = 2
   \<and> tabSwitchCount
       (fst (session_run [VisibilityChange True, VisibilityChange True,
                          VisibilityChange True, VisibilityChange True] active_page)) = 4"
  by (simp add: active_page_eq dispatch_def onVisibilityChange_def timerEffect_def
      guarded_send_def end_session_count_def)

section \<open>Completing the setup\<close>

text \<open>Whether the setup completes depends on the three flags and not on the fullscreen request.\<close>

lemma completeSetup_setupComplete:
  "setupComplete (completeSetup fs st) =
     (setupComplete st \<or>
      cameraPermission st = Granted \<and> micPermission st = Granted \<and> screenShareActive st)"
  by (cases fs) (auto simp: completeSetup_def)

lemma completeSetup_guard_fails:
  "\<not> (cameraPermission st = Granted \<and> micPermission st = Granted \<and> screenShareActive st) \<Longrightarrow>
     completeSetup fs st = st"
  by (auto simp: completeSetup_def)

text \<open>
  Claim C2. \<^verbatim>\<open>completeSetup()\<close> makes the session active only if the fullscreen request
  succeeds as well. The code does otherwise: with camera, microphone and screen share in
  place and the fullscreen request rejected, it sets the error text and then sets
  \<^verbatim>\<open>setupComplete\<close> and \<^verbatim>\<open>timerActive\<close> all the same.
\<close>

theorem completeSetup_ignores_fullscreen_failure:
  "\<not> setupComplete ready_page
   \<and> setupComplete (completeSetup FsRejected ready_page)
   \<and> timerActive (completeSetup FsRejected ready_page)
   \<and> error (completeSetup FsRejected ready_page) =
       JStr ''Fullscreen mode is required for the interview. Please allow fullscreen access.''"
  by (simp add: scenario_defs)

section \<open>The order of the checklist\<close>

lemma continue_buttons_advance:
  "advances_in_sequence (setupStep st) (setupStep (continueToVoiceSelection st))"
  "advances_in_sequence (setupStep st) (setupStep (continueToScreenSharing st))"
  by (simp_all add: advances_in_sequence_def continueToVoiceSelection_def
      continueToScreenSharing_def)

text \<open>
  Claim C4. The setup step only moves to the next step of the checklist, and granted
  permissions never take it from the permissions step straight to the screen-share step.
  The code does otherwise: on the first render, \<^verbatim>\<open>requestPermissions()\<close> with both requests
  granted leaves the step at screen share, two steps on.
\<close>

theorem requestPermissions_skips_voice_selection:
  "setupStep initial_page = PermissionsStep
   \<and> setupStep (requestPermissions None None initial_page) = ScreenShareStep
   \<and> \<not> advances_in_sequence (setupStep initial_page)
         (setupStep (requestPermissions None None initial_page))"
  by (simp add: scenario_defs advances_in_sequence_def)

section \<open>The end of the screen share\<close>

text \<open>
  The end-of-stream handler is registered on the setup screen and closes over that
  screen's \<^verbatim>\<open>setupComplete\<close> and \<^verbatim>\<open>ws\<close>. A handler registered while \<^verbatim>\<open>setupComplete\<close> was
  false sends nothing, whatever the state is when the stream ends; it clears
  \<^verbatim>\<open>screenShareActive\<close> and leaves the session as it is.
\<close>

lemma startScreenShare_captures:
  "screenOnEnded (startScreenShare (DisplayStream True) st) =
     Some \<lparr>cap_setupComplete = setupComplete st, cap_ws = (ws st \<noteq> None)\<rparr>"
  by (simp add: startScreenShare_def)

lemma screenTrackEnded_stale:
  "screenOnEnded st = Some c \<Longrightarrow> \<not> cap_setupComplete c \<Longrightarrow>
     screenTrackEnded st = (st\<lparr>screenShareActive := False, screenOnEnded := None\<rparr>, [], None)"
  by (simp add: screenTrackEnded_def)

text \<open>
  The cleanup of a render that held the screen stream stops its track, after which the
  handler cannot run. In the scenario the handler is armed on the ready screen, with the
  values of the setup screen; setting the \<^verbatim>\<open>ws\<close> cell runs that cleanup, so the share is
  over before the socket opens, and in the active session no end-of-stream event arrives.
\<close>

lemma resourceCleanup_stops_share:
  "screenStream captured \<Longrightarrow> screenOnEnded (fst (resourceCleanup captured fs st)) = None"
  by (simp add: resourceCleanup_def Let_def)

lemma share_over_before_socket_opens:
  "screenOnEnded ready_page = Some \<lparr>cap_setupComplete = False, cap_ws = False\<rparr>
   \<and> ws connecting_page = Some CONNECTING \<and> screenOnEnded connecting_page = None
   \<and> ws active_page = Some OPEN \<and> screenOnEnded active_page = None
   \<and> screenTrackEnded active_page = (active_page, [], None)"
  by (simp add: scenario_defs screenTrackEnded_def)

section \<open>The session timer\<close>

lemma tick_decrements:
  assumes "timer_running st" and "2 \<le> timerSec st"
  shows "tick st = (st\<lparr>timerSec := timerSec st - 1\<rparr>, [], None)"
  using assms by (simp add: tick_def timerEffect_def timerTimeout_def timer_running_def)

lemma tick_expires:
  assumes "timer_running st" and "timerSec st = 1"
    and "opt_send (ws st) (AnswerMsg ''end interview'') = Inr out"
  shows "tick st =
           (st\<lparr>timerSec := 0, timerActive := False,
               error := JStr ''Interview ended: Time limit reached.'',
               interviewEndedByProctor := True\<rparr>, out, None)"
  using assms by (simp add: tick_def timerEffect_def timerTimeout_def timer_running_def)

lemma tick_not_running: "\<not> timer_running st \<Longrightarrow> tick st = (st, [], None)"
  by (auto simp: tick_def timerEffect_def timer_running_def)

lemma run_ticks_not_running: "\<not> timer_running st \<Longrightarrow> run_ticks k st = (st, [])"
  by (induction k) (simp_all add: tick_not_running)

lemma run_ticks_counting:
  assumes "timer_running st" and "timerSec st = int n" and "k < n"
  shows "run_ticks k st = (st\<lparr>timerSec := int n - int k\<rparr>, [])"
  using assms
proof (induction k arbitrary: st n)
  case 0
  then show ?case by simp
next
  case (Suc k)
  from Suc.prems have two: "2 \<le> timerSec st" by simp
  let ?st1 = "st\<lparr>timerSec := timerSec st - 1\<rparr>"
  have t: "tick st = (?st1, [], None)"
    using tick_decrements[OF Suc.prems(1) two] .
  have r: "timer_running ?st1"
    using Suc.prems(1) by (simp add: timer_running_def)
  have s: "timerSec ?st1 = int (n - 1)"
    using Suc.prems by simp
  have "run_ticks k ?st1 = (?st1\<lparr>timerSec := int (n - 1) - int k\<rparr>, [])"
    using Suc.IH[OF r s] Suc.prems(3) by simp
  then show ?case
    using t Suc.prems by (simp add: algebra_simps)
qed

lemma run_ticks_add:
  "run_ticks (j + k) st =
     (case run_ticks j st of
        (st1, out1) \<Rightarrow> (case run_ticks k st1 of (st2, out2) \<Rightarrow> (st2, out1 @ out2)))"
  by (induction j arbitrary: st) (auto split: prod.splits)

lemma run_ticks_expiry:
  assumes "timer_running st" and "timerSec st = int n" and "0 < n"
    and "opt_send (ws st) (AnswerMsg ''end interview'') = Inr out"
  shows "run_ticks (n + m) st =
           (st\<lparr>timerSec := 0, timerActive := False,
               error := JStr ''Interview ended: Time limit reached.'',
               interviewEndedByProctor := True\<rparr>, out)"
proof -
  obtain k where n: "n = Suc k"
    using assms(3) by (cases n) auto
  let ?st1 = "st\<lparr>timerSec := 1\<rparr>"
  let ?st2 = "st\<lparr>timerSec := 0, timerActive := False,
                 error := JStr ''Interview ended: Time limit reached.'',
                 interviewEndedByProctor := True\<rparr>"
  have a: "run_ticks k st = (?st1, [])"
    using run_ticks_counting[OF assms(1,2), of k] n by simp
  have r1: "timer_running ?st1"
    using assms(1) by (simp add: timer_running_def)
  have b: "tick ?st1 = (?st2, out, None)"
    using tick_expires[OF r1, of out] assms(4) by simp
  have c: "run_ticks m ?st2 = (?st2, [])"
    by (rule run_ticks_not_running) (simp add: timer_running_def)
  have "run_ticks (n + m) st = run_ticks (k + Suc m) st"
    using n by simp
  also have "\<dots> = (?st2, out)"
    unfolding run_ticks_add using a b c by simp
  finally show ?thesis .
qed

text \<open>
  Claim C8 as stated fails where the session is active and the socket is not open. The
  connection is lost in the active session; the phase stays as it is and the timer keeps
  running; when the 600 seconds are over the session is marked ended and no
  end-of-session message has gone out.
\<close>

theorem timer_expiry_after_connection_loss:
  "timer_running (socket_onclose 1006 active_page)
   \<and> timerSec (socket_onclose 1006 active_page) = 600
   \<and> snd (run_ticks 600 (socket_onclose 1006 active_page)) = []
   \<and> interviewEndedByProctor (fst (run_ticks 600 (socket_onclose 1006 active_page)))"
proof -
  let ?st = "socket_onclose 1006 active_page"
  have r: "timer_running ?st"
    by (simp add: active_page_eq socket_onclose_def timer_running_def)
  have s: "timerSec ?st = int 600"
    by (simp add: active_page_eq socket_onclose_def)
  have o: "opt_send (ws ?st) (AnswerMsg ''end interview'') = Inr []"
    by (simp add: active_page_eq socket_onclose_def)
  have "run_ticks (600 + 0) ?st =
          (?st\<lparr>timerSec := 0, timerActive := False,
               error := JStr ''Interview ended: Time limit reached.'',
               interviewEndedByProctor := True\<rparr>, [])"
    by (rule run_ticks_expiry[OF r s _ o]) simp
  then show ?thesis
    using r s by simp
qed

text \<open>
  Claim C8, amended. The timer has its budget of 600 seconds from the first render and is
  started by \<^verbatim>\<open>completeSetup()\<close>. While it runs, every second takes one off. When it
  reaches 0 in a session that is active and whose protocol socket is open, the session is
  marked ended and exactly one end-of-session message is sent, however many seconds
  follow. In a session that is complete or ended the effect and the tick do nothing.
\<close>

theorem session_timer:
  assumes "timer_running st" and "timerSec st = int n" and "0 < n" and "ws st = Some OPEN"
  shows "timerSec initial_page = 600
     \<and> (cameraPermission st0 = Granted \<and> micPermission st0 = Granted \<and> screenShareActive st0 \<longrightarrow>
          timerActive (completeSetup fs st0) \<and> timerSec (completeSetup fs st0) = timerSec st0)
     \<and> (k < n \<longrightarrow> run_ticks k st = (st\<lparr>timerSec := int n - int k\<rparr>, []))
     \<and> run_ticks (n + m) st =
          (st\<lparr>timerSec := 0, timerActive := False,
              error := JStr ''Interview ended: Time limit reached.'',
              interviewEndedByProctor := True\<rparr>, [AnswerMsg ''end interview''])
     \<and> (is_complete (status st1) \<or> interviewEndedByProctor st1 \<longrightarrow>
          timerEffect st1 = ((st1, [], None), False) \<and> tick st1 = (st1, [], None))"
proof -
  have 1: "timerSec initial_page = 600"
    by (simp add: initial_page_def TIMER_SEC_def)
  have 2: "cameraPermission st0 = Granted \<and> micPermission st0 = Granted \<and> screenShareActive st0 \<longrightarrow>
             timerActive (completeSetup fs st0) \<and> timerSec (completeSetup fs st0) = timerSec st0"
    by (cases fs) (simp_all add: completeSetup_def)
  have 3: "k < n \<longrightarrow> run_ticks k st = (st\<lparr>timerSec := int n - int k\<rparr>, [])"
    using run_ticks_counting[OF assms(1,2)] by simp
  have 4: "run_ticks (n + m) st =
             (st\<lparr>timerSec := 0, timerActive := False,
                 error := JStr ''Interview ended: Time limit reached.'',
                 interviewEndedByProctor := True\<rparr>, [AnswerMsg ''end interview''])"
    using assms by (intro run_ticks_expiry) simp_all
  have 5: "is_complete (status st1) \<or> interviewEndedByProctor st1 \<longrightarrow>
             timerEffect st1 = ((st1, [], None), False) \<and> tick st1 = (st1, [], None)"
    by (auto simp: timerEffect_after_end tick_not_running timer_running_def)
  from 1 2 3 4 5 show ?thesis by blast
qed

theorem session_timer_witness:
  "timer_running (active_page\<lparr>timerSec := 2\<rparr>)
   \<and> timerSec (active_page\<lparr>timerSec := 2\<rparr>) = int 2 \<and> (0::nat) < 2
   \<and> ws (active_page\<lparr>timerSec := 2\<rparr>) = Some OPEN
   \<and> timerActive (completeSetup FsEntered ready_page)
   \<and> timerSec (completeSetup FsEntered ready_page) = 600
   \<and> run_ticks 1 (active_page\<lparr>timerSec := 2\<rparr>) = (active_page\<lparr>timerSec := 1\<rparr>, [])
   \<and> run_ticks (2 + 3) (active_page\<lparr>timerSec := 2\<rparr>) =
        (active_page\<lparr>timerSec := 0, timerActive := False,
                     error := JStr ''Interview ended: Time limit reached.'',
                     interviewEndedByProctor := True\<rparr>, [AnswerMsg ''end interview''])
   \<and> tick (active_page\<lparr>interviewEndedByProctor := True\<rparr>) =
        (active_page\<lparr>interviewEndedByProctor := True\<rparr>, [], None)"
proof -
  have h: "timer_running (active_page\<lparr>timerSec := 2\<rparr>)"
    "timerSec (active_page\<lparr>timerSec := 2\<rparr>) = int 2" "(0::nat) < 2"
    "ws (active_page\<lparr>timerSec := 2\<rparr>) = Some OPEN"
    by (simp_all add: active_page_eq timer_running_def)
  have g: "cameraPermission ready_page = Granted \<and> micPermission ready_page = Granted
             \<and> screenShareActive ready_page" "timerSec ready_page = 600"
    by (simp_all add: scenario_defs)
  show ?thesis
    using h g session_timer[OF h, where ?st0.0 = ready_page and fs = FsEntered and k = 1
        and m = 3 and ?st1.0 = "active_page\<lparr>interviewEndedByProctor := True\<rparr>"]
    by simp
qed

section \<open>Trimming and joining\<close>

lemma trim_Nil: "trim [] = []"
  by (simp add: trim_def)

lemma trim_decomp:
  "dropWhile is_space t = trim t @ rev (takeWhile is_space (rev (dropWhile is_space t)))"
proof -
  let ?a = "dropWhile is_space t"
  have "rev (dropWhile is_space (rev ?a)) @ rev (takeWhile is_space (rev ?a)) = ?a"
    by (simp only: rev_append[symmetric] takeWhile_dropWhile_id rev_rev_ident)
  then show ?thesis by (simp only: trim_def)
qed

lemma clean_trim:
  assumes ne: "trim t \<noteq> []"
  shows "clean (trim t)"
proof -
  let ?a = "dropWhile is_space t"
  let ?b = "dropWhile is_space (rev ?a)"
  have b: "?b \<noteq> []"
    using ne by (simp add: trim_def)
  have "\<not> is_space (hd ?b)"
    using b by (simp add: hd_dropWhile)
  moreover have "last (trim t) = hd ?b"
    using b by (simp add: trim_def last_rev)
  ultimately have l: "\<not> is_space (last (trim t))" by simp
  have a: "?a \<noteq> []"
    using b by (metis dropWhile.simps(1) rev.simps(1))
  then have "\<not> is_space (hd ?a)"
    by (simp add: hd_dropWhile)
  moreover have "hd ?a = hd (trim t)"
    using ne trim_decomp[of t] by (metis hd_append2)
  ultimately have h: "\<not> is_space (hd (trim t))" by simp
  show ?thesis
    using ne h l by (simp add: clean_def)
qed

lemma dropWhile_keeps: "xs \<noteq> [] \<Longrightarrow> \<not> P (hd xs) \<Longrightarrow> dropWhile P xs = xs"
  by (cases xs) simp_all

lemma trim_clean: "clean s \<Longrightarrow> trim s = s"
proof -
  assume c: "clean s"
  then have ne: "s \<noteq> []"
    by (simp add: clean_def)
  have 1: "dropWhile is_space s = s"
    using c by (intro dropWhile_keeps) (simp_all add: clean_def)
  have "\<not> is_space (hd (rev s))"
    using c ne by (simp add: hd_rev clean_def)
  then have 2: "dropWhile is_space (rev s) = rev s"
    using ne by (intro dropWhile_keeps) simp_all
  show ?thesis
    by (simp add: trim_def 1 2)
qed

lemma fragments_clean: "f \<in> set (fragments es) \<Longrightarrow> clean f"
  by (induction es rule: fragments.induct) (auto simp: clean_trim split: if_splits)

lemma fragments_nonempty: "\<forall>f\<in>set (fragments es). f \<noteq> []"
  using fragments_clean by (auto simp: clean_def)

lemma clean_join_spaces: "fs \<noteq> [] \<Longrightarrow> (\<forall>f\<in>set fs. clean f) \<Longrightarrow> clean (join_spaces fs)"
  by (induction fs rule: join_spaces.induct) (auto simp: clean_def)

lemma trim_join_fragments:
  assumes "fragments es \<noteq> []"
  shows "trim (join_spaces (fragments es)) = join_spaces (fragments es)
         \<and> join_spaces (fragments es) \<noteq> []"
proof -
  have "clean (join_spaces (fragments es))"
    using assms by (rule clean_join_spaces) (simp add: fragments_clean)
  then show ?thesis
    by (simp add: trim_clean) (simp add: clean_def)
qed

section \<open>The transcript buffer\<close>

lemma foldl_append_fragment:
  "b \<noteq> [] \<Longrightarrow> foldl append_fragment b fs = join_spaces (b # fs)"
proof (induction fs arbitrary: b)
  case Nil
  then show ?case by simp
next
  case (Cons f fs)
  have "foldl append_fragment b (f # fs) = foldl append_fragment (b @ '' '' @ f) fs"
    using Cons.prems by (simp add: append_fragment_def)
  also have "\<dots> = join_spaces ((b @ '' '' @ f) # fs)"
    by (rule Cons.IH) simp
  also have "\<dots> = join_spaces (b # f # fs)"
    by (cases fs) simp_all
  finally show ?case .
qed

lemma foldl_append_fragment_empty:
  assumes "\<forall>f\<in>set fs. f \<noteq> []"
  shows "foldl append_fragment [] fs = join_spaces fs"
proof (cases fs)
  case Nil
  then show ?thesis by simp
next
  case (Cons f fs')
  then have "f \<noteq> []"
    using assms by simp
  then show ?thesis
    using Cons by (simp add: append_fragment_def foldl_append_fragment)
qed

lemma capture_Nil: "capture [] st = st"
  by (simp add: capture_def)

lemma capture_Cons: "capture (e # es) st = capture es (onTranscript e st)"
  by (simp add: capture_def)

lemma onTranscript_ws: "ws (onTranscript e st) = ws st"
  by (cases e; cases "fst e") (auto simp: Let_def)

lemma onTranscript_error: "error (onTranscript e st) = error st"
  by (cases e; cases "fst e") (auto simp: Let_def)

lemma capture_ws: "ws (capture es st) = ws st"
  by (induction es arbitrary: st) (simp_all add: capture_Nil capture_Cons onTranscript_ws)

lemma capture_error: "error (capture es st) = error st"
  by (induction es arbitrary: st) (simp_all add: capture_Nil capture_Cons onTranscript_error)

lemma capture_buffer:
  "bufferRef (capture es st) = foldl append_fragment (bufferRef st) (fragments es)"
proof (induction es arbitrary: st rule: fragments.induct)
  case 1
  then show ?case by (simp add: capture_Nil)
next
  case (2 fin es)
  then show ?case by (simp add: capture_Cons)
next
  case (3 t fin es)
  then show ?case by (simp add: capture_Cons Let_def append_fragment_def)
qed

lemma capture_buffer_fresh:
  "bufferRef st = [] \<Longrightarrow> bufferRef (capture es st) = join_spaces (fragments es)"
  by (simp add: capture_buffer foldl_append_fragment_empty fragments_nonempty)

text \<open>An activation starts with an empty buffer.\<close>

lemma startListening_fresh_buffer:
  "audioStream st \<Longrightarrow> ws st = Some OPEN \<Longrightarrow> bufferRef (fst (startListening env st)) = []"
  by (simp add: startListening_def cleanupVoice_def listen_catch_def Let_def
      split: option.splits)

section \<open>Stopping the capture\<close>

text \<open>
  Claim C3 as stated fails where the socket is not open when the capture is stopped. The
  closing handshake has begun in the active session (ready state \<^verbatim>\<open>CLOSING\<close>, the close
  event not yet delivered, the microphone button still enabled), one final fragment is in
  the buffer, and \<^verbatim>\<open>stopListening()\<close> sends no answer.
\<close>

theorem stopListening_closing_socket_sends_no_answer:
  "isConnected (active_page\<lparr>ws := Some CLOSING\<rparr>)
   \<and> fragments [(Some ''hello'', True)] = [''hello'']
   \<and> snd (stopListening
            (capture [(Some ''hello'', True)] (active_page\<lparr>ws := Some CLOSING\<rparr>))) = []"
  by (simp add: active_page_eq capture_def stopListening_def cleanupVoice_def trim_def
      is_space_def Let_def)

text \<open>
  Claim C3, amended. For the fragments \<open>f1..fn\<close> that one activation appends to the buffer:
  if \<open>n > 0\<close> and the protocol socket is open when \<^verbatim>\<open>stopListening()\<close> runs, it sends
  exactly one answer, whose text is \<open>f1..fn\<close> joined by single spaces and trimmed; if
  \<open>n = 0\<close> it sends nothing and sets the notice that no speech was detected.
\<close>

theorem stopListening_sends_joined_fragments:
  assumes "bufferRef st = []"
  shows "(fragments es \<noteq> [] \<and> ws (capture es st) = Some OPEN \<longrightarrow>
            snd (stopListening (capture es st)) =
              [AnswerMsg (trim (join_spaces (fragments es)))])
       \<and> (fragments es = [] \<longrightarrow>
            snd (stopListening (capture es st)) = []
          \<and> error (fst (stopListening (capture es st))) =
              JStr ''No speech detected. Please try speaking again.'')"
proof (cases "fragments es = []")
  case True
  then have "bufferRef (capture es st) = []"
    using assms by (simp add: capture_buffer_fresh)
  then show ?thesis
    using True by (simp add: stopListening_def trim_Nil)
next
  case False
  have b: "bufferRef (capture es st) = join_spaces (fragments es)"
    using assms by (rule capture_buffer_fresh)
  from trim_join_fragments[OF False] show ?thesis
    using False b by (simp add: stopListening_def)
qed

theorem stopListening_sends_joined_fragments_witness:
  "bufferRef active_page = [] \<and> ws active_page = Some OPEN
   \<and> fragments [(Some ''  hello '', True), (Some ''wor'', False), (Some ''world. '', True)] =
       [''hello'', ''world.'']
   \<and> snd (stopListening
            (capture [(Some ''  hello '', True), (Some ''wor'', False), (Some ''world. '', True)]
               active_page)) = [AnswerMsg ''hello world.'']
   \<and> fragments [(Some ''   '', True), (None, True)] = []
   \<and> snd (stopListening (capture [(Some ''   '', True), (None, True)] active_page)) = []"
proof -
  have h: "bufferRef active_page = []" "ws active_page = Some OPEN"
    by (simp_all add: active_page_eq)
  have f: "fragments [(Some ''  hello '', True), (Some ''wor'', False), (Some ''world. '', True)] =
             [''hello'', ''world.'']"
    "fragments [(Some ''   '', True), (None, True)] = []"
    by (simp_all add: trim_def is_space_def)
  show ?thesis
    using h f capture_ws[of _ active_page]
      stopListening_sends_joined_fragments[OF h(1),
        of "[(Some ''  hello '', True), (Some ''wor'', False), (Some ''world. '', True)]"]
      stopListening_sends_joined_fragments[OF h(1), of "[(Some ''   '', True), (None, True)]"]
    by (simp add: trim_def is_space_def)
qed

text \<open>
  Claim C10. When \<^verbatim>\<open>stopListening()\<close> runs with fragments in the buffer and the protocol
  socket absent or not open, it sends nothing, leaves the error as it was, and the buffer
  is empty afterwards: the answer is lost without notice.
\<close>

theorem stopListening_without_socket_loses_answer:
  assumes "bufferRef st = []"
    and "bufferRef (capture es st) \<noteq> []"
    and "ws (capture es st) \<noteq> Some OPEN"
  shows "stopListening (capture es st) = (cleanupVoice (capture es st), [])
       \<and> error (fst (stopListening (capture es st))) = error (capture es st)
       \<and> bufferRef (fst (stopListening (capture es st))) = []"
proof -
  have b: "bufferRef (capture es st) = join_spaces (fragments es)"
    using assms(1) by (rule capture_buffer_fresh)
  then have "fragments es \<noteq> []"
    using assms(2) by auto
  from trim_join_fragments[OF this] have "trim (bufferRef (capture es st)) \<noteq> []"
    using b by simp
  then show ?thesis
    using assms(3) by (simp add: stopListening_def cleanupVoice_def)
qed

theorem stopListening_without_socket_loses_answer_witness:
  "bufferRef (active_page\<lparr>ws := Some CLOSING\<rparr>) = []
   \<and> bufferRef (capture [(Some ''hello'', True)] (active_page\<lparr>ws := Some CLOSING\<rparr>)) = ''hello''
   \<and> ws (capture [(Some ''hello'', True)] (active_page\<lparr>ws := Some CLOSING\<rparr>)) = Some CLOSING
   \<and> snd (stopListening
            (capture [(Some ''hello'', True)] (active_page\<lparr>ws := Some CLOSING\<rparr>))) = []
   \<and> error (fst (stopListening
                    (capture [(Some ''hello'', True)] (active_page\<lparr>ws := Some CLOSING\<rparr>)))) = JNull
   \<and> bufferRef (fst (stopListening
                        (capture [(Some ''hello'', True)] (active_page\<lparr>ws := Some CLOSING\<rparr>)))) = []"
proof -
  let ?st = "active_page\<lparr>ws := Some CLOSING\<rparr>"
  let ?es = "[(Some ''hello'', True)]"
  have h: "bufferRef ?st = []" "bufferRef (capture ?es ?st) \<noteq> []"
    "ws (capture ?es ?st) \<noteq> Some OPEN"
    by (simp_all add: active_page_eq capture_def trim_def is_space_def Let_def)
  have v: "bufferRef (capture ?es ?st) = ''hello''" "ws (capture ?es ?st) = Some CLOSING"
    "error (capture ?es ?st) = JNull"
    by (simp_all add: active_page_eq capture_def trim_def is_space_def Let_def)
  show ?thesis
    using h(1) v stopListening_without_socket_loses_answer[OF h]
    by (simp add: cleanupVoice_def)
qed

section \<open>Starting the capture without a supported encoding\<close>

lemma choose_mime_none: "\<forall>t\<in>set ts. \<not> p t \<Longrightarrow> choose_mime p ts = []"
  by (induction ts) simp_all

text \<open>
  Claim C6 as stated fails. In a browser whose recorder supports none of the candidate
  types, \<^verbatim>\<open>startListening()\<close> in the active session constructs the recorder without a
  MIME type, opens the transcription session, is listening, and sets no error.
\<close>

theorem startListening_falls_back_to_default_format:
  "filter (supported no_codec_env) supportedTypes = []
   \<and> snd (startListening no_codec_env active_page) = [NewRecorder None, OpenTranscription]
   \<and> isListening (fst (startListening no_codec_env active_page))
   \<and> error (fst (startListening no_codec_env active_page)) = JNull"
  by (simp add: active_page_eq startListening_def no_codec_env_def supportedTypes_def
      cleanupVoice_def)

text \<open>
  Claim C6, amended. If no candidate MIME type is supported, \<^verbatim>\<open>startListening()\<close> falls
  back to a recorder without a MIME type: when that recorder can be constructed the
  transcription session is opened, the capture state is listening and no error is set;
  when even that construction throws, it aborts before opening the transcription session,
  sets an error, and leaves the capture state not listening.
\<close>

theorem startListening_no_supported_type:
  assumes "audioStream st" and "ws st = Some OPEN"
    and "token_error (token env) = None" and "recording_stream env = None"
    and "\<forall>t\<in>set supportedTypes. \<not> supported env t"
  shows "(recorder_ctor env None = None \<and> listen_live env = None \<longrightarrow>
            snd (startListening env st) = [NewRecorder None, OpenTranscription]
          \<and> isListening (fst (startListening env st))
          \<and> dgConnRef (fst (startListening env st))
          \<and> error (fst (startListening env st)) = error st)
       \<and> (recorder_ctor env None = Some e \<longrightarrow>
            snd (startListening env st) = []
          \<and> \<not> isListening (fst (startListening env st))
          \<and> \<not> dgConnRef (fst (startListening env st))
          \<and> error (fst (startListening env st)) = JStr (voice_error_message e))"
  using assms choose_mime_none[of supportedTypes "supported env"]
  by (simp add: startListening_def cleanupVoice_def listen_catch_def)

theorem startListening_no_supported_type_witness:
  "audioStream active_page \<and> ws active_page = Some OPEN
   \<and> token_error (token no_recorder_env) = None \<and> recording_stream no_recorder_env = None
   \<and> filter (supported no_recorder_env) supportedTypes = []
   \<and> recorder_ctor no_recorder_env None =
       Some (ErrorObj ''NotSupportedError'' ''Failed to construct MediaRecorder'')
   \<and> snd (startListening no_recorder_env active_page) = []
   \<and> \<not> isListening (fst (startListening no_recorder_env active_page))
   \<and> \<not> dgConnRef (fst (startListening no_recorder_env active_page))
   \<and> error (fst (startListening no_recorder_env active_page)) =
       JStr ''Could not start voice recognition. Audio recording is not supported in your browser.''"
proof -
  have h: "audioStream active_page" "ws active_page = Some OPEN"
    "token_error (token no_recorder_env) = None" "recording_stream no_recorder_env = None"
    "\<forall>t\<in>set supportedTypes. \<not> supported no_recorder_env t"
    by (simp_all add: active_page_eq no_recorder_env_def)
  have c: "recorder_ctor no_recorder_env None =
             Some (ErrorObj ''NotSupportedError'' ''Failed to construct MediaRecorder'')"
    by (simp add: no_recorder_env_def)
  have m: "voice_error_message (ErrorObj ''NotSupportedError'' ''Failed to construct MediaRecorder'') =
             ''Could not start voice recognition. Audio recording is not supported in your browser.''"
    by simp
  have f: "filter (supported no_recorder_env) supportedTypes = []"
    by (simp add: no_recorder_env_def)
  show ?thesis
    using h(1-4) f c m
      startListening_no_supported_type[OF h,
        of "ErrorObj ''NotSupportedError'' ''Failed to construct MediaRecorder''"]
    by simp
qed

section \<open>The voice test\<close>

lemma trim_phrase: "trim ''Hello! This is a test of my voice. How do I sound?'' \<noteq> []"
  by (simp add: trim_def is_space_def)

text \<open>
  Claim C9. Testing a voice is a round trip on the selected voice: whatever the selection
  \<open>v\<close> and the tested voice \<open>w\<close>, and however the playback goes, the click selects \<open>w\<close>,
  and once the phrase has been spoken the selection is \<open>v\<close> again, whatever state the
  timeout finds. Of the other cells the test writes only the playback flag
  \<^verbatim>\<open>isSpeaking\<close>, which is false when the phrase has been spoken; every other cell is
  as before.
\<close>

theorem testVoice_round_trip:
  "selectedVoice (testVoiceClick w st) = Some w
   \<and> selectedVoice (fst (testVoiceTimeout env (selectedVoice st) st1)) = selectedVoice st
   \<and> selectedVoice (testVoice env w st) = selectedVoice st
   \<and> testVoice env w st = st\<lparr>isSpeaking := False\<rparr>"
  by (cases "tts env")
     (simp_all add: testVoice_def testVoiceTimeout_def testVoiceClick_def speakText_def
        utteranceEnded_def trim_phrase Let_def)

section \<open>Inbound frames of unknown shape\<close>

text \<open>
  The error cell after any frame that parsed: the fixed text if the body threw, the
  frame's own \<^verbatim>\<open>error\<close> if it has a truthy one, and otherwise what it was.
\<close>

lemma onmessage_error:
  "error (fst (onmessage coerce captured rs (Parsed data) st)) =
     (if snd (snd (snd (onmessage_body coerce captured rs data st))) \<noteq> None
      then JStr ''Invalid response from server''
      else if truthy (get_prop data ''error'') then get_prop data ''error''
      else error st)"
  by (cases data)
     (auto simp: onmessage_def onmessage_try_def onmessage_body_def Let_def
        split: sum.splits option.splits prod.splits if_splits)

text \<open>No exception leaves the handler, whatever the frame.\<close>

lemma onmessage_never_throws:
  "snd (snd (snd (onmessage coerce captured rs fr st))) = None"
  by (simp add: onmessage_def split: prod.splits option.splits)

text \<open>
  An object whose counters are numbers or absent and whose type is a string or absent is
  handled without an exception, unless it asks for the screen share while the socket is
  still connecting.
\<close>

lemma onmessage_body_object_returns:
  assumes "prim_number (get_prop (JObj fs) ''question_count'') \<noteq> None"
    and "prim_number (js_or (get_prop (JObj fs) ''max_questions'') (max_questions captured)) \<noteq> None"
    and "get_prop (JObj fs) ''type'' = JUndef \<or> (\<exists>t. get_prop (JObj fs) ''type'' = JStr t)"
    and "rs \<noteq> CONNECTING"
  shows "snd (snd (snd (onmessage_body coerce captured rs (JObj fs) st))) = None"
  using assms
  by (cases rs)
     (auto simp: onmessage_body_def js_ge_def Let_def split: option.splits sum.splits)

text \<open>
  Claim C5 as stated fails. The frame \<^verbatim>\<open>{"type": "ping"}\<close> is none of the known variants;
  the handler takes it for a question without text, overwrites the progress, and the
  error cell stays \<^verbatim>\<open>null\<close>.
\<close>

theorem unknown_frame_surfaces_no_error:
  "\<not> known_variant (JObj [(''type'', JStr ''ping'')])
   \<and> \<not> error_surfaced
         (fst (onmessage no_coercion (status active_page) OPEN
                 (Parsed (JObj [(''type'', JStr ''ping'')])) active_page))
   \<and> status (fst (onmessage no_coercion (status active_page) OPEN
                     (Parsed (JObj [(''type'', JStr ''ping'')])) active_page)) =
       \<lparr>question_count = JUndef, max_questions = JNum 8, is_complete = False\<rparr>"
  by (simp add: active_page_eq onmessage_def onmessage_try_def onmessage_body_def
      known_variant_def error_surfaced_def js_ge_def js_or_def)

text \<open>
  Claim C5, amended. No exception leaves the handler, whatever the frame. A frame that does
  not parse sets the error \<^verbatim>\<open>Invalid response from server\<close> and nothing else. For a frame
  that parses to something that is none of the known variants:
  \<^item> \<^verbatim>\<open>null\<close> sets that error and nothing else;
  \<^item> if comparing its \<^verbatim>\<open>question_count\<close> with its \<^verbatim>\<open>max_questions\<close> (or, when that is
    falsy, with the maximum the handler holds) throws, it sets that error and nothing else;
  \<^item> otherwise nothing is sent and the progress is overwritten with its
    \<^verbatim>\<open>question_count\<close>, that maximum and the result of the comparison. If it has no
    truthy \<^verbatim>\<open>text\<close>, that is all, and the error cell is as before. If it has, the type is
    tested: a number, boolean or object for a type throws and sets that error; a type
    that contains \<^verbatim>\<open>screen_share\<close> leaves the text unspoken and the error cell as before;
    any other type, or none, stores the text as the response and hands it to
    \<^verbatim>\<open>speakText\<close>, the error cell as before.
\<close>

theorem onmessage_unknown_frame:
  assumes "\<not> known_variant data"
  shows "snd (snd (snd (onmessage coerce captured rs fr st))) = None
     \<and> onmessage coerce captured rs Malformed st =
         (st\<lparr>error := JStr ''Invalid response from server''\<rparr>, [], [], None)
     \<and> (data = JNull \<or> data = JUndef \<longrightarrow>
          onmessage coerce captured rs (Parsed data) st =
            (st\<lparr>error := JStr ''Invalid response from server''\<rparr>, [], [], None))
     \<and> (data \<noteq> JNull \<and> data \<noteq> JUndef \<longrightarrow>
          onmessage coerce captured rs (Parsed data) st =
            (case js_ge coerce (get_prop data ''question_count'')
                    (js_or (get_prop data ''max_questions'') (max_questions captured)) of
               Inl e \<Rightarrow> (st\<lparr>error := JStr ''Invalid response from server''\<rparr>, [], [], None)
             | Inr b \<Rightarrow>
                 (let progress =
                        st\<lparr>status :=
                             \<lparr>question_count = get_prop data ''question_count'',
                              max_questions =
                                js_or (get_prop data ''max_questions'') (max_questions captured),
                              is_complete = b\<rparr>\<rparr>
                  in if \<not> truthy (get_prop data ''text'') then (progress, [], [], None)
                     else
                       (case not_screen_share (get_prop data ''type'') of
                          Inl e \<Rightarrow>
                            (progress\<lparr>error := JStr ''Invalid response from server''\<rparr>,
                             [], [], None)
                        | Inr speak \<Rightarrow>
                            (if speak
                             then (progress\<lparr>aiResponse := get_prop data ''text''\<rparr>,
                                   [], [get_prop data ''text''], None)
                             else (progress, [], [], None))))))"
  using assms
  by (cases data)
     (auto simp: onmessage_def onmessage_try_def onmessage_body_def Let_def known_variant_def
        split: sum.splits option.splits prod.splits if_splits)

theorem onmessage_unknown_frame_witness:
  "\<not> known_variant (JObj [(''type'', JStr ''heartbeat''), (''seq'', JNum 7)])
   \<and> onmessage no_coercion (status active_page) OPEN
        (Parsed (JObj [(''type'', JStr ''heartbeat''), (''seq'', JNum 7)])) active_page =
       (active_page\<lparr>status := \<lparr>question_count = JUndef, max_questions = JNum 8,
                                 is_complete = False\<rparr>\<rparr>, [], [], None)
   \<and> \<not> known_variant (JObj [(''type'', JStr ''screen_share_ended''), (''text'', JStr ''hi'')])
   \<and> onmessage no_coercion (status active_page) OPEN
        (Parsed (JObj [(''type'', JStr ''screen_share_ended''), (''text'', JStr ''hi'')]))
        active_page =
       (active_page\<lparr>status := \<lparr>question_count = JUndef, max_questions = JNum 8,
                                 is_complete = False\<rparr>\<rparr>, [], [], None)
   \<and> \<not> known_variant
         (JObj [(''type'', JStr ''note''), (''text'', JStr ''hi''), (''question_count'', JNum 9)])
   \<and> onmessage no_coercion (status active_page) OPEN
        (Parsed (JObj [(''type'', JStr ''note''), (''text'', JStr ''hi''),
                       (''question_count'', JNum 9)])) active_page =
       (active_page\<lparr>status := \<lparr>question_count = JNum 9, max_questions = JNum 8,
                                 is_complete = True\<rparr>,
                     aiResponse := JStr ''hi''\<rparr>, [], [JStr ''hi''], None)
   \<and> \<not> known_variant (JObj [(''type'', JNum 5), (''text'', JStr ''x'')])
   \<and> onmessage no_coercion (status active_page) OPEN
        (Parsed (JObj [(''type'', JNum 5), (''text'', JStr ''x'')])) active_page =
       (active_page\<lparr>status := \<lparr>question_count = JUndef, max_questions = JNum 8,
                                 is_complete = False\<rparr>,
                     error := JStr ''Invalid response from server''\<rparr>, [], [], None)
   \<and> \<not> known_variant JNull
   \<and> onmessage no_coercion (status active_page) OPEN (Parsed JNull) active_page =
       (active_page\<lparr>error := JStr ''Invalid response from server''\<rparr>, [], [], None)"
proof -
  let ?d1 = "JObj [(''type'', JStr ''heartbeat''), (''seq'', JNum 7)]"
  let ?d2 = "JObj [(''type'', JStr ''screen_share_ended''), (''text'', JStr ''hi'')]"
  let ?d3 = "JObj [(''type'', JStr ''note''), (''text'', JStr ''hi''), (''question_count'', JNum 9)]"
  let ?d4 = "JObj [(''type'', JNum 5), (''text'', JStr ''x'')]"
  have k: "\<not> known_variant ?d1" "\<not> known_variant ?d2" "\<not> known_variant ?d3"
    "\<not> known_variant ?d4" "\<not> known_variant JNull"
    by (simp_all add: known_variant_def)
  have m: "max_questions (status active_page) = JNum 8"
    by (simp add: active_page_eq)
  note u = onmessage_unknown_frame[where coerce = no_coercion and captured = "status active_page"
      and rs = OPEN and st = active_page and fr = Malformed]
  show ?thesis
    using k m u[OF k(1)] u[OF k(2)] u[OF k(3)] u[OF k(4)] u[OF k(5)]
    by (simp add: js_ge_def js_or_def Let_def)
qed

end
